theory Spec2Isabelle
  imports Main
begin

section \<open>Values and failures\<close>

text \<open>
  The data handed to the template is a Go \<^verbatim>\<open>interface{}\<close>. The decoders fill it with
  \<^verbatim>\<open>nil\<close>, \<^verbatim>\<open>bool\<close>, a number, \<^verbatim>\<open>string\<close>, \<^verbatim>\<open>[]interface{}\<close> or
  \<^verbatim>\<open>map[string]interface{}\<close>; the YAML decoder gives a
  \<^verbatim>\<open>map[interface{}]interface{}\<close> to a mapping that has a key which is not a string
  (its entries are kept as a list of pairs, a string key being a \<open>VStr\<close>);
  \<^verbatim>\<open>parseEnv\<close> fills it with a \<^verbatim>\<open>map[string]string\<close>. The three kinds of map are
  three different dynamic types. The number type (\<^verbatim>\<open>float64\<close> for JSON, \<^verbatim>\<open>int\<close> or
  \<^verbatim>\<open>float64\<close> for YAML) is the parameter \<open>'n\<close>: nothing below looks inside a number.
\<close>

datatype 'n gvalue =
    VNil
  | VBool bool
  | VNum 'n
  | VStr string
  | VList "'n gvalue list"
  | VMap "string \<Rightarrow> 'n gvalue option"
  | VIfaceMap "('n gvalue \<times> 'n gvalue) list"
  | VStrMap "string \<Rightarrow> string option"

text \<open>The two runtime faults the program can raise, neither of them recovered.\<close>

datatype panic = TypeAssertion | IndexOutOfRange

section \<open>Library functions on strings\<close>

text \<open>
  \<^verbatim>\<open>strings.Split(s, sep)\<close> and \<^verbatim>\<open>strings.Count(s, sep)\<close> for a separator of one byte,
  which is how every call of the program uses them (\<^verbatim>\<open>"."\<close>, \<^verbatim>\<open>"="\<close>, \<^verbatim>\<open>":"\<close>).
  \<^verbatim>\<open>Split\<close> cuts at every occurrence of the separator and always returns at least one
  piece; a Go string is a sequence of bytes, as \<^typ>\<open>string\<close> is.
\<close>

fun Split :: "string \<Rightarrow> char \<Rightarrow> string list" where
  "Split [] sep = [[]]"
| "Split (c # cs) sep =
     (if c = sep then [] # Split cs sep
      else (case Split cs sep of
              [] \<Rightarrow> [[c]]
            | w # ws \<Rightarrow> (c # w) # ws))"

definition Count :: "string \<Rightarrow> char \<Rightarrow> nat" where
  "Count s sep = length (filter (\<lambda>c. c = sep) s)"

text \<open>Indexing a slice, \<^verbatim>\<open>a[i]\<close>: out of range is a runtime fault.\<close>

definition index :: "'a list \<Rightarrow> nat \<Rightarrow> panic + 'a" where
  "index a i = (if i < length a then Inr (a ! i) else Inl IndexOutOfRange)"

section \<open>Package-level variables\<close>

record flags =
  inputFile :: string
  outputFile :: string
  jsonDataFile :: string
  yamlDataFile :: string
  delimiters :: string
  subtree :: string
  envFlag :: bool
  strictFlag :: bool
  helpFlag :: bool
  versionFlag :: bool

section \<open>getSubTree\<close>

text \<open>
  The loop of \<^verbatim>\<open>getSubTree\<close>: \<^verbatim>\<open>v := data.(map[string]interface{})\<close> faults on anything
  that is not such a map (\<^verbatim>\<open>nil\<close> and the two other kinds of map included), and \<^verbatim>\<open>v[k]\<close> is
  \<^verbatim>\<open>nil\<close> for a key the map does not have.
\<close>

fun getSubTree_loop :: "string list \<Rightarrow> 'n gvalue \<Rightarrow> panic + 'n gvalue" where
  "getSubTree_loop [] data = Inr data"
| "getSubTree_loop (k # st) data =
     (case data of
        VMap v \<Rightarrow> getSubTree_loop st (case v k of None \<Rightarrow> VNil | Some x \<Rightarrow> x)
      | _ \<Rightarrow> Inl TypeAssertion)"

text \<open>
  \<^verbatim>\<open>func getSubTree(data interface{}, substree string) interface{}\<close>: the segments are
  \<^verbatim>\<open>strings.Split(subtree, ".")[1:]\<close>, read from the package-level variable \<^verbatim>\<open>subtree\<close>;
  the parameter is spelled \<^verbatim>\<open>substree\<close> and is not read.
\<close>

definition getSubTree :: "flags \<Rightarrow> 'n gvalue \<Rightarrow> string \<Rightarrow> panic + 'n gvalue" where
  "getSubTree g data substree =
     (let st = drop 1 (Split (subtree g) CHR ''.'') in getSubTree_loop st data)"

section \<open>parseEnv\<close>

text \<open>
  The loop of \<^verbatim>\<open>parseEnv\<close> over \<^verbatim>\<open>os.Environ()\<close>: each entry is split at every
  \<^verbatim>\<open>=\<close> and \<^verbatim>\<open>data[envKv[0]] = envKv[1]\<close> stores the second piece under the first.
\<close>

fun parseEnv_loop ::
  "string list \<Rightarrow> (string \<Rightarrow> string option) \<Rightarrow> panic + (string \<Rightarrow> string option)" where
  "parseEnv_loop [] data = Inr data"
| "parseEnv_loop (v # vs) data =
     (let envKv = Split v CHR ''='' in
      case index envKv 0 of
        Inl p \<Rightarrow> Inl p
      | Inr name \<Rightarrow>
          (case index envKv 1 of
             Inl p \<Rightarrow> Inl p
           | Inr val \<Rightarrow> parseEnv_loop vs (data(name \<mapsto> val))))"

text \<open>
  \<^verbatim>\<open>func parseEnv() (interface{}, error)\<close>, given the result of \<^verbatim>\<open>os.Environ()\<close>. The
  error it returns is always \<^verbatim>\<open>nil\<close>, so only the value and the fault remain.
\<close>

definition parseEnv :: "string list \<Rightarrow> panic + 'n gvalue" where
  "parseEnv environ =
     (case parseEnv_loop environ Map.empty of
        Inl p \<Rightarrow> Inl p
      | Inr data \<Rightarrow> Inr (VStrMap data))"

section \<open>The outside world\<close>

text \<open>
  What \<^verbatim>\<open>main\<close> obtains from the operating system and from the decoding libraries. An
  open file is represented by what reading it gives: its bytes, or \<open>None\<close> when the read
  fails. \<^verbatim>\<open>os.Open\<close> gives \<open>None\<close> when the file cannot be opened.
  \<^verbatim>\<open>json.NewDecoder(f).Decode(&data)\<close> and \<^verbatim>\<open>yaml.NewDecoder(f).Decode(&data)\<close> are
  functions of the file with \<open>None\<close> for a decoding error; both libraries are outside
  the program and stay parameters.
\<close>

type_synonym handle = "string option"

record 'n world =
  os_Args :: "string list"
  os_Stdin :: handle
  os_Open :: "string \<Rightarrow> handle option"
  os_Environ :: "string list"
  filepath_Clean :: "string \<Rightarrow> string"
  json_Decode :: "handle \<Rightarrow> 'n gvalue option"
  yaml_Decode :: "handle \<Rightarrow> 'n gvalue option"

datatype error = OpenError | DecodeError

section \<open>parseYAML and parseJSON\<close>

text \<open>Both return \<^verbatim>\<open>(nil, err)\<close> on failure and \<^verbatim>\<open>(data, nil)\<close> otherwise.\<close>

definition parseYAML :: "'n world \<Rightarrow> string \<Rightarrow> 'n gvalue \<times> error option" where
  "parseYAML w file =
     (case os_Open w (filepath_Clean w file) of
        None \<Rightarrow> (VNil, Some OpenError)
      | Some dataFile \<Rightarrow>
          (case yaml_Decode w dataFile of
             None \<Rightarrow> (VNil, Some DecodeError)
           | Some data \<Rightarrow> (data, None)))"

definition parseJSON :: "'n world \<Rightarrow> string \<Rightarrow> 'n gvalue \<times> error option" where
  "parseJSON w file =
     (case os_Open w (filepath_Clean w file) of
        None \<Rightarrow> (VNil, Some OpenError)
      | Some dataFile \<Rightarrow>
          (case json_Decode w dataFile of
             None \<Rightarrow> (VNil, Some DecodeError)
           | Some data \<Rightarrow> (data, None)))"

section \<open>countTrue and parseArgs\<close>

fun countTrue :: "bool list \<Rightarrow> nat" where
  "countTrue [] = 0"
| "countTrue (v # b) = (if v then Suc (countTrue b) else countTrue b)"

text \<open>
  How a run ends without rendering: a \<^verbatim>\<open>log.Fatal\<close> (one constructor for each message
  of the program), a runtime fault, or \<^verbatim>\<open>os.Exit(0)\<close> after \<^verbatim>\<open>--version\<close> or
  \<^verbatim>\<open>--help\<close>.
\<close>

datatype fatal =
    FatalUsage
  | FatalDataSource
  | FatalOpeningInput
  | FatalReadingInput
  | FatalDataFile
  | FatalDelimiter

datatype halt = Fatal fatal | Panic panic | Exit0

text \<open>
  \<^verbatim>\<open>parseArgs\<close> after \<^verbatim>\<open>flag.Parse()\<close> has filled the package-level variables \<open>g\<close>:
  the usage text when there is no argument, the two early exits, and the only check on
  the combination of flags, that exactly one data source is selected.
\<close>

definition parseArgs :: "string list \<Rightarrow> flags \<Rightarrow> halt + unit" where
  "parseArgs args g =
     (if length args = 1 then Inl (Fatal FatalUsage)
      else if versionFlag g then Inl Exit0
      else if helpFlag g then Inl Exit0
      else if countTrue [jsonDataFile g \<noteq> [], yamlDataFile g \<noteq> [], envFlag g] \<noteq> 1
        then Inl (Fatal FatalDataSource)
      else Inr ())"

section \<open>main\<close>

text \<open>
  The state of the \<^verbatim>\<open>text/template\<close> value that \<^verbatim>\<open>main\<close> sets: its name, the
  \<^verbatim>\<open>missingkey\<close> option and the two delimiters. \<^verbatim>\<open>template.New\<close> leaves the delimiters
  empty, which the library reads as its defaults.
\<close>

datatype missingkey = MissingKeyDefault | MissingKeyError

record template =
  tpl_name :: string
  tpl_missingkey :: missingkey
  leftDelim :: string
  rightDelim :: string

definition template_New :: "string \<Rightarrow> template" where
  "template_New n =
     \<lparr>tpl_name = n, tpl_missingkey = MissingKeyDefault, leftDelim = [], rightDelim = []\<rparr>"

definition Delims :: "template \<Rightarrow> string \<Rightarrow> string \<Rightarrow> template" where
  "Delims tpl l r = tpl\<lparr>leftDelim := l, rightDelim := r\<rparr>"

text \<open>
  What \<^verbatim>\<open>main\<close> hands to the template library when nothing stopped it before: the
  prepared template, the template text for \<^verbatim>\<open>tpl.Parse\<close>, the output path for
  \<^verbatim>\<open>os.Create\<close> (empty or \<^verbatim>\<open>-\<close> for standard output) and the data for
  \<^verbatim>\<open>tpl.Execute\<close>.
\<close>

record 'n render =
  render_tpl :: template
  render_text :: string
  render_out :: string
  render_data :: "'n gvalue"

text \<open>Sequencing: a stage that halts ends the run.\<close>

definition seq :: "'e + 'a \<Rightarrow> ('a \<Rightarrow> 'e + 'b) \<Rightarrow> 'e + 'b" where
  "seq r f = (case r of Inl e \<Rightarrow> Inl e | Inr x \<Rightarrow> f x)"

text \<open>\<^verbatim>\<open>// Read input\<close>\<close>

definition main_read_input :: "flags \<Rightarrow> 'n world \<Rightarrow> halt + string" where
  "main_read_input g w =
     seq (if inputFile g \<noteq> [] \<and> inputFile g \<noteq> ''-''
          then (case os_Open w (inputFile g) of
                  None \<Rightarrow> Inl (Fatal FatalOpeningInput)
                | Some f \<Rightarrow> Inr f)
          else Inr (os_Stdin w))
       (\<lambda>in_file. case in_file of
                  None \<Rightarrow> Inl (Fatal FatalReadingInput)
                | Some tplStr \<Rightarrow> Inr tplStr)"

text \<open>
  \<^verbatim>\<open>// Read and Parse data file\<close>. \<^verbatim>\<open>getSubTree\<close> runs before \<^verbatim>\<open>err\<close> is looked at,
  and only in the JSON and YAML branches.
\<close>

definition main_read_data :: "flags \<Rightarrow> 'n world \<Rightarrow> halt + 'n gvalue" where
  "main_read_data g w =
     (if jsonDataFile g \<noteq> [] then
        (case parseJSON w (jsonDataFile g) of
           (data, err) \<Rightarrow>
             (case (if subtree g \<noteq> [] then getSubTree g data (subtree g) else Inr data) of
                Inl p \<Rightarrow> Inl (Panic p)
              | Inr data' \<Rightarrow> if err \<noteq> None then Inl (Fatal FatalDataFile) else Inr data'))
      else if yamlDataFile g \<noteq> [] then
        (case parseYAML w (yamlDataFile g) of
           (data, err) \<Rightarrow>
             (case (if subtree g \<noteq> [] then getSubTree g data (subtree g) else Inr data) of
                Inl p \<Rightarrow> Inl (Panic p)
              | Inr data' \<Rightarrow> if err \<noteq> None then Inl (Fatal FatalDataFile) else Inr data'))
      else
        (case parseEnv (os_Environ w) of
           Inl p \<Rightarrow> Inl (Panic p)
         | Inr data \<Rightarrow> Inr data))"

text \<open>
  \<^verbatim>\<open>// Prepare Template\<close>. \<^verbatim>\<open>delimiters[len(delimiters)-1:]\<close> is the last byte and
  \<^verbatim>\<open>delimiters[0:1]\<close> the first; both are read only when the string is not empty.
\<close>

definition main_prepare_template :: "flags \<Rightarrow> halt + template" where
  "main_prepare_template g =
     (let tpl = template_New ''template'';
          tpl = (if strictFlag g then tpl\<lparr>tpl_missingkey := MissingKeyError\<rparr> else tpl)
      in if delimiters g \<noteq> [] then
           (if Count (delimiters g) CHR '':'' \<noteq> 1
               \<or> drop (length (delimiters g) - 1) (delimiters g) = '':''
               \<or> take 1 (delimiters g) = '':''
            then Inl (Fatal FatalDelimiter)
            else
              (let d = Split (delimiters g) CHR '':'' in
               case index d 0 of
                 Inl p \<Rightarrow> Inl (Panic p)
               | Inr d0 \<Rightarrow>
                   (case index d 1 of
                      Inl p \<Rightarrow> Inl (Panic p)
                    | Inr d1 \<Rightarrow> Inr (Delims tpl d0 d1))))
         else Inr tpl)"

text \<open>
  \<^verbatim>\<open>main\<close> up to its calls into \<^verbatim>\<open>text/template\<close>. A result \<open>Inr r\<close> stands for
  \<^verbatim>\<open>tpl.Parse\<close> on \<open>render_text r\<close>, \<^verbatim>\<open>os.Create\<close> on \<open>render_out r\<close> and
  \<^verbatim>\<open>tpl.Execute\<close> on \<open>render_data r\<close>, in this order; what they do is the library's.
\<close>

definition main :: "flags \<Rightarrow> 'n world \<Rightarrow> halt + 'n render" where
  "main g w =
     seq (parseArgs (os_Args w) g) (\<lambda>_.
     seq (main_read_input g w) (\<lambda>tplStr.
     seq (main_read_data g w) (\<lambda>data.
     seq (main_prepare_template g) (\<lambda>tpl.
       Inr \<lparr>render_tpl = tpl, render_text = tplStr,
            render_out = outputFile g, render_data = data\<rparr>))))"

section \<open>Notions of the specification\<close>

text \<open>
  The segments of a path as the specification words them: the string split on
  \<^verbatim>\<open>.\<close>, a leading \<^verbatim>\<open>.\<close> being ignored.
\<close>

definition path_segments :: "string \<Rightarrow> string list" where
  "path_segments p = Split (if take 1 p = ''.'' then drop 1 p else p) CHR ''.''"

text \<open>
  Navigation as the specification words it: walk the path segment by segment; at each
  step the current value must be a mapping and the next segment is looked up as a key;
  the result is the value found after all segments. \<open>None\<close> when a step does not
  succeed. A decoded mapping is of either kind, with string keys only or with keys of
  any type.
\<close>

fun Navigate :: "'n gvalue \<Rightarrow> string list \<Rightarrow> 'n gvalue option" where
  "Navigate v [] = Some v"
| "Navigate v (k # ks) =
     (case v of
        VMap m \<Rightarrow> (case m k of None \<Rightarrow> None | Some x \<Rightarrow> Navigate x ks)
      | VIfaceMap m \<Rightarrow>
          (case map_of m (VStr k) of None \<Rightarrow> None | Some x \<Rightarrow> Navigate x ks)
      | _ \<Rightarrow> None)"

text \<open>
  Every mapping met on the way along the segments is a \<^verbatim>\<open>map[string]interface{}\<close>.
\<close>

fun string_keyed :: "'n gvalue \<Rightarrow> string list \<Rightarrow> bool" where
  "string_keyed v [] = True"
| "string_keyed v (k # ks) =
     (case v of
        VMap m \<Rightarrow> (case m k of None \<Rightarrow> True | Some x \<Rightarrow> string_keyed x ks)
      | VIfaceMap m \<Rightarrow> False
      | _ \<Rightarrow> True)"

text \<open>
  The two sides of a delimiter specification: what stands before its first \<^verbatim>\<open>:\<close> and
  what stands after it. The specification is malformed when it does not hold exactly one
  \<^verbatim>\<open>:\<close> or one of the sides is empty.
\<close>

definition left_side :: "string \<Rightarrow> string" where
  "left_side d = takeWhile (\<lambda>c. c \<noteq> CHR '':'') d"

definition right_side :: "string \<Rightarrow> string" where
  "right_side d = drop 1 (dropWhile (\<lambda>c. c \<noteq> CHR '':'') d)"

definition malformed :: "string \<Rightarrow> bool" where
  "malformed d = (Count d CHR '':'' \<noteq> 1 \<or> left_side d = [] \<or> right_side d = [])"

section \<open>Splitting and counting\<close>

lemma Split_not_Nil: "Split s sep \<noteq> []"
  by (induction s) (auto split: list.splits)

lemma Split_no_sep: "sep \<notin> set s \<Longrightarrow> Split s sep = [s]"
  by (induction s) auto

lemma Split_first:
  "sep \<in> set s \<Longrightarrow>
   Split s sep =
     takeWhile (\<lambda>c. c \<noteq> sep) s # Split (drop 1 (dropWhile (\<lambda>c. c \<noteq> sep) s)) sep"
  by (induction s) auto

lemma Count_0: "Count s sep = 0 \<longleftrightarrow> sep \<notin> set s"
  by (induction s) (auto simp: Count_def)

lemma Count_1:
  "Count s sep = 1 \<Longrightarrow>
   sep \<in> set s \<and> sep \<notin> set (drop 1 (dropWhile (\<lambda>c. c \<noteq> sep) s))"
proof (induction s)
  case Nil
  then show ?case by (simp add: Count_def)
next
  case (Cons c cs)
  show ?case
  proof (cases "c = sep")
    case True
    with Cons.prems have "Count cs sep = 0" by (simp add: Count_def)
    with True show ?thesis by (simp add: Count_0)
  next
    case False
    with Cons.prems have "Count cs sep = 1" by (simp add: Count_def)
    with False Cons.IH show ?thesis by simp
  qed
qed

lemma Split_Count_1:
  assumes "Count s sep = 1"
  shows "Split s sep =
           [takeWhile (\<lambda>c. c \<noteq> sep) s, drop 1 (dropWhile (\<lambda>c. c \<noteq> sep) s)]"
  using Count_1 [OF assms] by (simp add: Split_first Split_no_sep)

lemma first_byte:
  "s \<noteq> [] \<Longrightarrow> take 1 s = [sep] \<longleftrightarrow> takeWhile (\<lambda>c. c \<noteq> sep) s = []"
  by (cases s) auto

lemma last_byte:
  assumes "Count s sep = 1"
  shows "drop (length s - 1) s = [sep] \<longleftrightarrow> drop 1 (dropWhile (\<lambda>c. c \<noteq> sep) s) = []"
proof -
  define l where "l = takeWhile (\<lambda>c. c \<noteq> sep) s"
  define r where "r = drop 1 (dropWhile (\<lambda>c. c \<noteq> sep) s)"
  from Count_1 [OF assms] have in_s: "sep \<in> set s" and not_r: "sep \<notin> set r"
    by (simp_all add: r_def)
  from in_s have "dropWhile (\<lambda>c. c \<noteq> sep) s \<noteq> []" by auto
  moreover have "hd (dropWhile (\<lambda>c. c \<noteq> sep) s) = sep"
    using in_s hd_dropWhile [of "\<lambda>c. c \<noteq> sep" s] by auto
  ultimately have dw: "dropWhile (\<lambda>c. c \<noteq> sep) s = sep # r"
    unfolding r_def by (cases "dropWhile (\<lambda>c. c \<noteq> sep) s") auto
  have s: "s = l @ sep # r"
    using takeWhile_dropWhile_id [of "\<lambda>c. c \<noteq> sep" s] dw by (simp add: l_def)
  have "s \<noteq> []" using in_s by auto
  then have dl: "drop (length s - 1) s = [last s]"
    by (induction s rule: rev_induct) auto
  have "last s = sep \<longleftrightarrow> r = []"
  proof (cases "r = []")
    case True
    with s show ?thesis by simp
  next
    case False
    with s have "last s = last r" by simp
    moreover from False have "last r \<in> set r" by simp
    ultimately have "last s \<noteq> sep" using not_r by auto
    with False show ?thesis by simp
  qed
  with dl show ?thesis unfolding r_def by simp
qed

section \<open>getSubTree\<close>

lemma path_segments_dot: "path_segments (CHR ''.'' # rest) = Split rest CHR ''.''"
  by (simp add: path_segments_def)

lemma getSubTree_loop_Navigate:
  "Navigate data ks = Some v \<Longrightarrow> string_keyed data ks \<Longrightarrow>
   getSubTree_loop ks data = Inr v"
proof (induction ks arbitrary: data)
  case Nil
  then show ?case by simp
next
  case (Cons k ks)
  then show ?case
    by (cases data) (auto split: option.splits)
qed

text \<open>
  C2 (navigation is total and never faults). The code does otherwise: with the path
  \<^verbatim>\<open>.a.b\<close>, the data \<^verbatim>\<open>{"a": "x"}\<close> reaches the type assertion with a string and the
  data \<^verbatim>\<open>{}\<close> reaches it with \<^verbatim>\<open>nil\<close>, and both runs end in the runtime fault. Only
  a key that is absent at the last step gives \<^verbatim>\<open>nil\<close>, as with the path \<^verbatim>\<open>.a\<close> on
  \<^verbatim>\<open>{}\<close>.
\<close>

theorem getSubTree_faults_mid_path:
  "getSubTree
     \<lparr>inputFile = [], outputFile = [], jsonDataFile = ''data.json'', yamlDataFile = [],
      delimiters = [], subtree = ''.a.b'', envFlag = False, strictFlag = False,
      helpFlag = False, versionFlag = False\<rparr>
     (VMap [''a'' \<mapsto> VStr ''x''] :: int gvalue) ''.a.b'' = Inl TypeAssertion \<and>
   getSubTree
     \<lparr>inputFile = [], outputFile = [], jsonDataFile = ''data.json'', yamlDataFile = [],
      delimiters = [], subtree = ''.a.b'', envFlag = False, strictFlag = False,
      helpFlag = False, versionFlag = False\<rparr>
     (VMap Map.empty :: int gvalue) ''.a.b'' = Inl TypeAssertion \<and>
   getSubTree
     \<lparr>inputFile = [], outputFile = [], jsonDataFile = ''data.json'', yamlDataFile = [],
      delimiters = [], subtree = ''.a'', envFlag = False, strictFlag = False,
      helpFlag = False, versionFlag = False\<rparr>
     (VMap Map.empty :: int gvalue) ''.a'' = Inr VNil"
  by (simp add: getSubTree_def)

text \<open>
  C5, as the code has it. For every path string that begins with \<^verbatim>\<open>.\<close>, the
  segments \<^verbatim>\<open>getSubTree\<close> walks are the string split on \<^verbatim>\<open>.\<close> with the leading
  \<^verbatim>\<open>.\<close> ignored, it walks them in order, and when every lookup on the way succeeds
  in a \<^verbatim>\<open>map[string]interface{}\<close> it returns the value found after the last segment.
\<close>

theorem getSubTree_dotted_path:
  assumes "subtree g = CHR ''.'' # rest"
  shows "drop 1 (Split (subtree g) CHR ''.'') = path_segments (subtree g) \<and>
         path_segments (subtree g) = Split rest CHR ''.'' \<and>
         getSubTree g data p = getSubTree_loop (path_segments (subtree g)) data \<and>
         (Navigate data (path_segments (subtree g)) = Some v \<and>
          string_keyed data (path_segments (subtree g)) \<longrightarrow>
            getSubTree g data p = Inr v)"
  using assms by (simp add: getSubTree_def path_segments_dot getSubTree_loop_Navigate)

text \<open>The path \<^verbatim>\<open>.key2.first\<close> on the data of the examples.\<close>

theorem getSubTree_dotted_path_witness:
  "subtree
     \<lparr>inputFile = [], outputFile = [], jsonDataFile = ''data.json'', yamlDataFile = [],
      delimiters = [], subtree = ''.key2.first'', envFlag = False, strictFlag = False,
      helpFlag = False, versionFlag = False\<rparr> = CHR ''.'' # ''key2.first'' \<and>
   path_segments ''.key2.first'' = [''key2'', ''first''] \<and>
   drop 1 (Split ''.key2.first'' CHR ''.'') = [''key2'', ''first''] \<and>
   Navigate (VMap [''key2'' \<mapsto> VMap [''first'' \<mapsto> VMap [''key3'' \<mapsto> VStr ''v3'']]] :: int gvalue)
     [''key2'', ''first''] = Some (VMap [''key3'' \<mapsto> VStr ''v3'']) \<and>
   string_keyed (VMap [''key2'' \<mapsto> VMap [''first'' \<mapsto> VMap [''key3'' \<mapsto> VStr ''v3'']]] :: int gvalue)
     [''key2'', ''first''] \<and>
   getSubTree
     \<lparr>inputFile = [], outputFile = [], jsonDataFile = ''data.json'', yamlDataFile = [],
      delimiters = [], subtree = ''.key2.first'', envFlag = False, strictFlag = False,
      helpFlag = False, versionFlag = False\<rparr>
     (VMap [''key2'' \<mapsto> VMap [''first'' \<mapsto> VMap [''key3'' \<mapsto> VStr ''v3'']]] :: int gvalue)
     ''.key2.first'' = Inr (VMap [''key3'' \<mapsto> VStr ''v3''])"
  using getSubTree_dotted_path [of
     "\<lparr>inputFile = [], outputFile = [], jsonDataFile = ''data.json'', yamlDataFile = [],
      delimiters = [], subtree = ''.key2.first'', envFlag = False, strictFlag = False,
      helpFlag = False, versionFlag = False\<rparr>"
     "''key2.first''"
     "(VMap [''key2'' \<mapsto> VMap [''first'' \<mapsto> VMap [''key3'' \<mapsto> VStr ''v3'']]] :: int gvalue)"
     "''.key2.first''"
     "VMap [''key3'' \<mapsto> VStr ''v3'']"]
  by (simp add: path_segments_def)

text \<open>
  Without the dot in front the first segment itself is dropped. The path
  \<^verbatim>\<open>key2.first\<close> has the segments \<^verbatim>\<open>key2\<close> and \<^verbatim>\<open>first\<close>, under which
  the data holds a mapping, but the code walks \<^verbatim>\<open>first\<close> only and returns \<^verbatim>\<open>nil\<close>;
  the path \<^verbatim>\<open>key2\<close> walks nothing and returns the whole data.
\<close>

theorem getSubTree_drops_first_segment:
  "path_segments ''key2.first'' = [''key2'', ''first''] \<and>
   drop 1 (Split ''key2.first'' CHR ''.'') = [''first''] \<and>
   Navigate (VMap [''key2'' \<mapsto> VMap [''first'' \<mapsto> VMap [''key3'' \<mapsto> VStr ''v3'']]] :: int gvalue)
     (path_segments ''key2.first'') = Some (VMap [''key3'' \<mapsto> VStr ''v3'']) \<and>
   string_keyed (VMap [''key2'' \<mapsto> VMap [''first'' \<mapsto> VMap [''key3'' \<mapsto> VStr ''v3'']]] :: int gvalue)
     (path_segments ''key2.first'') \<and>
   getSubTree
     \<lparr>inputFile = [], outputFile = [], jsonDataFile = ''data.json'', yamlDataFile = [],
      delimiters = [], subtree = ''key2.first'', envFlag = False, strictFlag = False,
      helpFlag = False, versionFlag = False\<rparr>
     (VMap [''key2'' \<mapsto> VMap [''first'' \<mapsto> VMap [''key3'' \<mapsto> VStr ''v3'']]] :: int gvalue)
     ''key2.first'' = Inr VNil \<and>
   path_segments ''key2'' = [''key2''] \<and>
   getSubTree
     \<lparr>inputFile = [], outputFile = [], jsonDataFile = ''data.json'', yamlDataFile = [],
      delimiters = [], subtree = ''key2'', envFlag = False, strictFlag = False,
      helpFlag = False, versionFlag = False\<rparr>
     (VMap [''key2'' \<mapsto> VMap [''first'' \<mapsto> VMap [''key3'' \<mapsto> VStr ''v3'']]] :: int gvalue)
     ''key2'' =
     Inr (VMap [''key2'' \<mapsto> VMap [''first'' \<mapsto> VMap [''key3'' \<mapsto> VStr ''v3'']]])"
  by (simp add: getSubTree_def path_segments_def)

text \<open>
  A YAML mapping with a key that is not a string, as \<^verbatim>\<open>{a: x, true: y}\<close>, is a
  \<^verbatim>\<open>map[interface{}]interface{}\<close>: the key \<^verbatim>\<open>a\<close> is there, and the type
  assertion faults all the same.
\<close>

lemma getSubTree_general_map_faults:
  "Navigate (VIfaceMap [(VStr ''a'', VStr ''x''), (VBool True, VStr ''y'')] :: int gvalue)
     (path_segments ''.a'') = Some (VStr ''x'') \<and>
   getSubTree
     \<lparr>inputFile = [], outputFile = [], jsonDataFile = [], yamlDataFile = ''data.yaml'',
      delimiters = [], subtree = ''.a'', envFlag = False, strictFlag = False,
      helpFlag = False, versionFlag = False\<rparr>
     (VIfaceMap [(VStr ''a'', VStr ''x''), (VBool True, VStr ''y'')] :: int gvalue)
     ''.a'' = Inl TypeAssertion"
  by (simp add: getSubTree_def path_segments_def)

text \<open>
  C10. The result of \<^verbatim>\<open>getSubTree\<close> does not depend on its path argument: for every data
  value and any two strings passed as the second argument the results are equal, since
  the function reads the package-level \<^verbatim>\<open>subtree\<close> and never its parameter.
\<close>

theorem getSubTree_ignores_argument:
  "getSubTree g data p1 = getSubTree g data p2"
  by (simp add: getSubTree_def)

section \<open>parseEnv\<close>

text \<open>
  C3 (an entry is split at its first \<^verbatim>\<open>=\<close> only). The code does otherwise: it splits
  at every \<^verbatim>\<open>=\<close> and keeps the second piece, so the entry \<^verbatim>\<open>A=b=c\<close> binds
  \<^verbatim>\<open>A\<close> to \<^verbatim>\<open>b\<close> and the rest of the value is lost.
\<close>

theorem parseEnv_cuts_value:
  "(parseEnv [''TEST1=hello'', ''A=b=c''] :: panic + int gvalue) =
     Inr (VStrMap [''TEST1'' \<mapsto> ''hello'', ''A'' \<mapsto> ''b''])"
  by (simp add: parseEnv_def index_def)

section \<open>The delimiter specification\<close>

lemma delimiter_check:
  assumes "d \<noteq> []"
  shows "(Count d CHR '':'' \<noteq> 1 \<or> drop (length d - 1) d = '':'' \<or> take 1 d = '':'')
         = malformed d"
proof (cases "Count d CHR '':'' = 1")
  case False
  then show ?thesis by (simp add: malformed_def)
next
  case True
  have "take 1 d = '':'' \<longleftrightarrow> left_side d = []"
    unfolding left_side_def using assms by (rule first_byte)
  moreover have "drop (length d - 1) d = '':'' \<longleftrightarrow> right_side d = []"
    unfolding right_side_def using True by (rule last_byte)
  ultimately show ?thesis
    unfolding malformed_def by blast
qed

lemma delimiter_Split:
  assumes "\<not> malformed d"
  shows "Split d CHR '':'' = [left_side d, right_side d]"
proof -
  from assms have "Count d CHR '':'' = 1" by (simp add: malformed_def)
  then show ?thesis
    unfolding left_side_def right_side_def by (rule Split_Count_1)
qed

lemma main_prepare_template_eq:
  assumes "delimiters g \<noteq> []"
  shows "main_prepare_template g =
           (if malformed (delimiters g) then Inl (Fatal FatalDelimiter)
            else Inr (Delims (if strictFlag g
                              then (template_New ''template'')\<lparr>tpl_missingkey := MissingKeyError\<rparr>
                              else template_New ''template'')
                        (left_side (delimiters g)) (right_side (delimiters g))))"
proof (cases "malformed (delimiters g)")
  case True
  then show ?thesis
    unfolding main_prepare_template_def Let_def delimiter_check [OF assms]
    using assms by simp
next
  case False
  then show ?thesis
    unfolding main_prepare_template_def Let_def delimiter_check [OF assms]
      delimiter_Split [OF False]
    using assms by (simp add: index_def)
qed

lemma main_halts:
  "main_prepare_template g = Inl h \<Longrightarrow> isl (main g w)"
  by (simp add: main_def seq_def split: sum.splits)

text \<open>
  C6, as the code has it. For every non-empty delimiter specification, preparing the
  template ends the run with the delimiter error exactly when the specification is
  malformed (not exactly one \<^verbatim>\<open>:\<close>, or an empty side), and then \<^verbatim>\<open>main\<close> halts
  without handing any text to the parser; otherwise the two sides, both non-empty, are
  set as the left and right delimiters. Nothing asks the two sides to differ.
\<close>

theorem delimiter_spec:
  assumes "delimiters g \<noteq> []"
  shows "main_prepare_template g =
           (if malformed (delimiters g) then Inl (Fatal FatalDelimiter)
            else Inr (Delims (if strictFlag g
                              then (template_New ''template'')\<lparr>tpl_missingkey := MissingKeyError\<rparr>
                              else template_New ''template'')
                        (left_side (delimiters g)) (right_side (delimiters g)))) \<and>
         (malformed (delimiters g) \<longrightarrow> isl (main g w)) \<and>
         (\<not> malformed (delimiters g) \<longrightarrow>
            left_side (delimiters g) \<noteq> [] \<and> right_side (delimiters g) \<noteq> [])"
  using main_prepare_template_eq [OF assms] main_halts [of g _ w]
  by (simp add: malformed_def)

text \<open>The specification \<^verbatim>\<open>((:))\<close> is installed; \<^verbatim>\<open>((:\<close> ends the run.\<close>

theorem delimiter_spec_witness:
  "delimiters
     \<lparr>inputFile = [], outputFile = [], jsonDataFile = [], yamlDataFile = [],
      delimiters = ''((:))'', subtree = [], envFlag = True, strictFlag = True,
      helpFlag = False, versionFlag = False\<rparr> \<noteq> [] \<and>
   \<not> malformed ''((:))'' \<and>
   main_prepare_template
     \<lparr>inputFile = [], outputFile = [], jsonDataFile = [], yamlDataFile = [],
      delimiters = ''((:))'', subtree = [], envFlag = True, strictFlag = True,
      helpFlag = False, versionFlag = False\<rparr> =
     Inr \<lparr>tpl_name = ''template'', tpl_missingkey = MissingKeyError,
          leftDelim = ''(('', rightDelim = ''))''\<rparr> \<and>
   malformed ''((:'' \<and>
   main_prepare_template
     \<lparr>inputFile = [], outputFile = [], jsonDataFile = [], yamlDataFile = [],
      delimiters = ''((:'', subtree = [], envFlag = True, strictFlag = False,
      helpFlag = False, versionFlag = False\<rparr> = Inl (Fatal FatalDelimiter) \<and>
   isl (main
     \<lparr>inputFile = [], outputFile = [], jsonDataFile = [], yamlDataFile = [],
      delimiters = ''((:'', subtree = [], envFlag = True, strictFlag = False,
      helpFlag = False, versionFlag = False\<rparr>
     (\<lparr>os_Args = [''datasubst'', ''--env-data'', ''-d'', ''((:''],
      os_Stdin = Some ''(( .TEST ))'', os_Open = Map.empty, os_Environ = [''TEST=hi''],
      filepath_Clean = id, json_Decode = Map.empty, yaml_Decode = Map.empty\<rparr> :: int world))"
  using delimiter_spec [of
     "\<lparr>inputFile = [], outputFile = [], jsonDataFile = [], yamlDataFile = [],
      delimiters = ''((:))'', subtree = [], envFlag = True, strictFlag = True,
      helpFlag = False, versionFlag = False\<rparr>"
     "\<lparr>os_Args = [''datasubst'', ''--env-data'', ''-d'', ''((:''],
      os_Stdin = Some ''(( .TEST ))'', os_Open = Map.empty, os_Environ = [''TEST=hi''],
      filepath_Clean = id, json_Decode = Map.empty, yaml_Decode = Map.empty\<rparr> :: int world"]
    delimiter_spec [of
     "\<lparr>inputFile = [], outputFile = [], jsonDataFile = [], yamlDataFile = [],
      delimiters = ''((:'', subtree = [], envFlag = True, strictFlag = False,
      helpFlag = False, versionFlag = False\<rparr>"
     "\<lparr>os_Args = [''datasubst'', ''--env-data'', ''-d'', ''((:''],
      os_Stdin = Some ''(( .TEST ))'', os_Open = Map.empty, os_Environ = [''TEST=hi''],
      filepath_Clean = id, json_Decode = Map.empty, yaml_Decode = Map.empty\<rparr> :: int world"]
  by (simp add: malformed_def Count_def left_side_def right_side_def template_New_def
        Delims_def)

text \<open>
  The specification \<^verbatim>\<open>((:((\<close> has one \<^verbatim>\<open>:\<close> and two non-empty sides: it is accepted,
  and the left and the right delimiter are the same string.
\<close>

theorem delimiter_same_sides_accepted:
  "\<not> malformed ''((:(('' \<and>
   main_prepare_template
     \<lparr>inputFile = [], outputFile = [], jsonDataFile = [], yamlDataFile = [],
      delimiters = ''((:(('', subtree = [], envFlag = True, strictFlag = False,
      helpFlag = False, versionFlag = False\<rparr> =
     Inr \<lparr>tpl_name = ''template'', tpl_missingkey = MissingKeyDefault,
          leftDelim = ''(('', rightDelim = ''((''\<rparr>"
  by (simp add: main_prepare_template_def malformed_def left_side_def right_side_def
        Count_def index_def template_New_def Delims_def)

section \<open>A subtree path with the environment as data source\<close>

lemma parseArgs_subtree: "parseArgs args (g\<lparr>subtree := s\<rparr>) = parseArgs args g"
  by (simp add: parseArgs_def cong: if_cong)

lemma main_read_input_subtree:
  "main_read_input (g\<lparr>subtree := s\<rparr>) w = main_read_input g w"
  by (simp add: main_read_input_def cong: if_cong)

lemma main_prepare_template_subtree:
  "main_prepare_template (g\<lparr>subtree := s\<rparr>) = main_prepare_template g"
  by (simp add: main_prepare_template_def Let_def cong: if_cong)

lemma main_read_data_env:
  "jsonDataFile g = [] \<Longrightarrow> yamlDataFile g = [] \<Longrightarrow>
   main_read_data g w =
     (case parseEnv (os_Environ w) of Inl p \<Rightarrow> Inl (Panic p) | Inr data \<Rightarrow> Inr data)"
  by (simp add: main_read_data_def)

lemma main_read_input_fatal:
  "main_read_input g w = Inl (Fatal f) \<Longrightarrow> f = FatalOpeningInput \<or> f = FatalReadingInput"
  by (auto simp: main_read_input_def seq_def split: option.splits if_splits)

lemma main_read_data_fatal:
  "main_read_data g w = Inl (Fatal f) \<Longrightarrow> f = FatalDataFile"
  by (auto simp: main_read_data_def split: sum.splits if_splits prod.splits)

lemma main_prepare_template_fatal:
  "main_prepare_template g = Inl (Fatal f) \<Longrightarrow> f = FatalDelimiter"
  by (auto simp: main_prepare_template_def Let_def split: sum.splits if_splits)

lemma main_fatal:
  assumes "main g w = Inl (Fatal f)"
  shows "parseArgs (os_Args w) g = Inl (Fatal f) \<or>
         f \<in> {FatalOpeningInput, FatalReadingInput, FatalDataFile, FatalDelimiter}"
  using assms main_read_input_fatal [of g w f] main_read_data_fatal [of g w f]
    main_prepare_template_fatal [of g f]
  by (auto simp: main_def seq_def split: sum.splits)

text \<open>
  C8, as the code has it. When the environment is the data source and a non-empty
  subtree path is given, the run does not end in a usage error (neither the usage text
  nor the data-source message): the path is ignored, the data is what \<^verbatim>\<open>parseEnv\<close>
  returns with no call of \<^verbatim>\<open>getSubTree\<close> on it, and the whole run is the run without
  a subtree path.
\<close>

theorem env_source_ignores_subtree:
  assumes "jsonDataFile g = []" and "yamlDataFile g = []" and "envFlag g"
    and "subtree g \<noteq> []" and "length (os_Args w) \<noteq> 1"
  shows "main g w \<noteq> Inl (Fatal FatalUsage) \<and> main g w \<noteq> Inl (Fatal FatalDataSource) \<and>
         main_read_data g w =
           (case parseEnv (os_Environ w) of Inl p \<Rightarrow> Inl (Panic p) | Inr data \<Rightarrow> Inr data) \<and>
         main g w = main (g\<lparr>subtree := []\<rparr>) w"
proof -
  have pa: "parseArgs (os_Args w) g \<noteq> Inl (Fatal FatalUsage)"
    "parseArgs (os_Args w) g \<noteq> Inl (Fatal FatalDataSource)"
    using assms by (simp_all add: parseArgs_def)
  have m1: "main g w \<noteq> Inl (Fatal FatalUsage)" "main g w \<noteq> Inl (Fatal FatalDataSource)"
    using pa main_fatal [of g w FatalUsage] main_fatal [of g w FatalDataSource] by auto
  have rd: "main_read_data (g\<lparr>subtree := []\<rparr>) w = main_read_data g w"
    using assms by (simp add: main_read_data_env)
  have m2: "main g w = main (g\<lparr>subtree := []\<rparr>) w"
    by (simp add: main_def parseArgs_subtree main_read_input_subtree
          main_prepare_template_subtree rd)
  from m1 m2 main_read_data_env [OF assms(1,2)] show ?thesis by simp
qed

text \<open>The run \<^verbatim>\<open>TEST=hello datasubst -e -t .TEST\<close>.\<close>

theorem env_source_ignores_subtree_witness:
  "jsonDataFile
     \<lparr>inputFile = [], outputFile = [], jsonDataFile = [], yamlDataFile = [],
      delimiters = [], subtree = ''.TEST'', envFlag = True, strictFlag = False,
      helpFlag = False, versionFlag = False\<rparr> = [] \<and>
   yamlDataFile
     \<lparr>inputFile = [], outputFile = [], jsonDataFile = [], yamlDataFile = [],
      delimiters = [], subtree = ''.TEST'', envFlag = True, strictFlag = False,
      helpFlag = False, versionFlag = False\<rparr> = [] \<and>
   envFlag
     \<lparr>inputFile = [], outputFile = [], jsonDataFile = [], yamlDataFile = [],
      delimiters = [], subtree = ''.TEST'', envFlag = True, strictFlag = False,
      helpFlag = False, versionFlag = False\<rparr> \<and>
   subtree
     \<lparr>inputFile = [], outputFile = [], jsonDataFile = [], yamlDataFile = [],
      delimiters = [], subtree = ''.TEST'', envFlag = True, strictFlag = False,
      helpFlag = False, versionFlag = False\<rparr> \<noteq> [] \<and>
   length [''datasubst'', ''-e'', ''-t'', ''.TEST''] \<noteq> 1 \<and>
   main_read_data
     \<lparr>inputFile = [], outputFile = [], jsonDataFile = [], yamlDataFile = [],
      delimiters = [], subtree = ''.TEST'', envFlag = True, strictFlag = False,
      helpFlag = False, versionFlag = False\<rparr>
     (\<lparr>os_Args = [''datasubst'', ''-e'', ''-t'', ''.TEST''],
      os_Stdin = Some ''{{ .TEST }}'', os_Open = Map.empty, os_Environ = [''TEST=hello''],
      filepath_Clean = id, json_Decode = Map.empty, yaml_Decode = Map.empty\<rparr> :: int world) =
     Inr (VStrMap [''TEST'' \<mapsto> ''hello'']) \<and>
   main
     \<lparr>inputFile = [], outputFile = [], jsonDataFile = [], yamlDataFile = [],
      delimiters = [], subtree = ''.TEST'', envFlag = True, strictFlag = False,
      helpFlag = False, versionFlag = False\<rparr>
     (\<lparr>os_Args = [''datasubst'', ''-e'', ''-t'', ''.TEST''],
      os_Stdin = Some ''{{ .TEST }}'', os_Open = Map.empty, os_Environ = [''TEST=hello''],
      filepath_Clean = id, json_Decode = Map.empty, yaml_Decode = Map.empty\<rparr> :: int world)
     \<noteq> Inl (Fatal FatalDataSource)"
  using env_source_ignores_subtree [of
     "\<lparr>inputFile = [], outputFile = [], jsonDataFile = [], yamlDataFile = [],
      delimiters = [], subtree = ''.TEST'', envFlag = True, strictFlag = False,
      helpFlag = False, versionFlag = False\<rparr>"
     "\<lparr>os_Args = [''datasubst'', ''-e'', ''-t'', ''.TEST''],
      os_Stdin = Some ''{{ .TEST }}'', os_Open = Map.empty, os_Environ = [''TEST=hello''],
      filepath_Clean = id, json_Decode = Map.empty, yaml_Decode = Map.empty\<rparr> :: int world"]
  by (auto simp: parseEnv_def index_def)

text \<open>
  The run \<^verbatim>\<open>TEST=hi datasubst --env-data --subtree .key2\<close> with \<^verbatim>\<open>{{ .TEST }}\<close> on
  standard input passes every check and hands the environment mapping to the template.
\<close>

theorem env_source_with_subtree_renders:
  "(main
     \<lparr>inputFile = [], outputFile = [], jsonDataFile = [], yamlDataFile = [],
      delimiters = [], subtree = ''.key2'', envFlag = True, strictFlag = False,
      helpFlag = False, versionFlag = False\<rparr>
     \<lparr>os_Args = [''datasubst'', ''--env-data'', ''--subtree'', ''.key2''],
      os_Stdin = Some ''{{ .TEST }}'', os_Open = Map.empty, os_Environ = [''TEST=hi''],
      filepath_Clean = id, json_Decode = Map.empty, yaml_Decode = Map.empty\<rparr>
     :: halt + int render) =
   Inr \<lparr>render_tpl = \<lparr>tpl_name = ''template'', tpl_missingkey = MissingKeyDefault,
                       leftDelim = [], rightDelim = []\<rparr>,
        render_text = ''{{ .TEST }}'', render_out = [],
        render_data = VStrMap [''TEST'' \<mapsto> ''hi'']\<rparr>"
  by (simp add: main_def seq_def parseArgs_def main_read_input_def main_read_data_def
        main_prepare_template_def parseEnv_def index_def template_New_def)

end
